theory Spec2Isabelle
  imports Main "HOL-Library.Word"
begin

section \<open>Shared types\<close>

type_synonym byte = "8 word"

section \<open>safelyJoinPath (utils.ts, lines 11-49)\<close>

record MappedPath =
  outside :: string
  inside :: string

text \<open>The argument \<open>basePath: MappedPath | string\<close> and the value returned for it.\<close>

datatype base_path = PlainPath string | Mapped MappedPath

text \<open>
  The \<open>Error\<close> thrown at line 30; its message is the JSON rendering of \<open>basePath\<close> and
  \<open>paths\<close>, which the constructor carries as they are.
\<close>

datatype path_error = InvalidPathJoin string "string list"

text \<open>\<open>String.prototype.startsWith\<close>.\<close>

definition startsWith :: "string \<Rightarrow> string \<Rightarrow> bool" where
  "startsWith s p = (take (length p) s = p)"

text \<open>
  \<open>join\<close> and \<open>normalize\<close> are imported from Node's \<open>path\<close> module (line 3); the functions
  below take them as parameters \<open>pjoin\<close> (variadic, hence on a list) and \<open>pnormalize\<close>.
\<close>

definition doSafelyJoin ::
  "(string list \<Rightarrow> string) \<Rightarrow> (string \<Rightarrow> string) \<Rightarrow> string \<Rightarrow> string list \<Rightarrow> path_error + string"
where
  "doSafelyJoin pjoin pnormalize basePath paths =
     (let childPath = pnormalize (pjoin paths) in
      if startsWith childPath ''..'' then Inl (InvalidPathJoin basePath paths)
      else Inr (pjoin [basePath, childPath]))"

text \<open>
  Line 44 handles a string base; lines 45-48 build the object literal, whose properties
  are evaluated in the order written: \<open>inside\<close> first, then \<open>outside\<close>.
\<close>

definition safelyJoinPath ::
  "(string list \<Rightarrow> string) \<Rightarrow> (string \<Rightarrow> string) \<Rightarrow> base_path \<Rightarrow> string list \<Rightarrow> path_error + base_path"
where
  "safelyJoinPath pjoin pnormalize basePath paths =
     (case basePath of
        PlainPath b \<Rightarrow>
          (case doSafelyJoin pjoin pnormalize b paths of
             Inl e \<Rightarrow> Inl e
           | Inr p \<Rightarrow> Inr (PlainPath p))
      | Mapped m \<Rightarrow>
          (case doSafelyJoin pjoin pnormalize (inside m) paths of
             Inl e \<Rightarrow> Inl e
           | Inr i \<Rightarrow>
               (case doSafelyJoin pjoin pnormalize (outside m) paths of
                  Inl e \<Rightarrow> Inl e
                | Inr out \<Rightarrow> Inr (Mapped \<lparr>outside = out, inside = i\<rparr>))))"

subsection \<open>A model of \<open>path.posix\<close> to run examples\<close>

text \<open>
  Node's POSIX \<open>normalize\<close> and \<open>join\<close>, written over the list of segments between
  slashes. They are used only to instantiate \<open>pjoin\<close> and \<open>pnormalize\<close> at concrete
  inputs; every general statement below holds for arbitrary parameters.
\<close>

fun segments :: "string \<Rightarrow> string list" where
  "segments [] = [[]]"
| "segments (c # cs) =
     (if c = CHR ''/'' then [] # segments cs
      else (case segments cs of [] \<Rightarrow> [[c]] | s # ss \<Rightarrow> (c # s) # ss))"

fun intercalate :: "string \<Rightarrow> string list \<Rightarrow> string" where
  "intercalate sep [] = []"
| "intercalate sep [s] = s"
| "intercalate sep (s # t # ss) = s @ sep @ intercalate sep (t # ss)"

text \<open>One segment of \<open>normalizeString\<close>; the accumulator holds the kept segments, last first.\<close>

definition normalize_step :: "bool \<Rightarrow> string list \<Rightarrow> string \<Rightarrow> string list" where
  "normalize_step allowAboveRoot acc seg =
     (if seg = [] \<or> seg = ''.'' then acc
      else if seg = ''..'' then
        (case acc of
           [] \<Rightarrow> if allowAboveRoot then [seg] else []
         | a # as \<Rightarrow> if a = ''..'' then (if allowAboveRoot then seg # acc else acc) else as)
      else seg # acc)"

definition normalizeString :: "bool \<Rightarrow> string \<Rightarrow> string" where
  "normalizeString allowAboveRoot p =
     intercalate ''/'' (rev (foldl (normalize_step allowAboveRoot) [] (segments p)))"

definition posix_normalize :: "string \<Rightarrow> string" where
  "posix_normalize p =
     (if p = [] then ''.''
      else
        (let isAbsolute = (hd p = CHR ''/'');
             trailingSeparator = (last p = CHR ''/'');
             q = normalizeString (\<not> isAbsolute) p
         in if q = [] then (if isAbsolute then ''/'' else if trailingSeparator then ''./'' else ''.'')
            else (if isAbsolute then ''/'' else []) @ q @ (if trailingSeparator then ''/'' else [])))"

definition posix_join :: "string list \<Rightarrow> string" where
  "posix_join paths =
     (let joined = filter (\<lambda>a. a \<noteq> []) paths in
      if joined = [] then ''.'' else posix_normalize (intercalate ''/'' joined))"

section \<open>readFileLimited (utils.ts, lines 64-83)\<close>

text \<open>
  What the file system does to the calls the function makes on one path. Each of
  \<open>open\<close>, \<open>stat\<close>, \<open>read\<close> and \<open>close\<close> returns a promise that may reject; a rejection
  is represented by its error code.
\<close>

record file_behaviour =
  open_error :: "string option"     \<comment> \<open>\<open>e.code\<close> when \<open>fs.promises.open\<close> rejects\<close>
  stat_result :: "string + int"     \<comment> \<open>\<open>file.stat()\<close> rejects, or reports this \<open>size\<close>\<close>
  read_result :: "string + nat"     \<comment> \<open>\<open>file.read\<close> rejects, or delivers at most this many bytes\<close>
  content :: "byte list"            \<comment> \<open>the bytes of the file, from position 0\<close>
  close_error :: "string option"    \<comment> \<open>\<open>file.close()\<close> rejects with this error\<close>
  max_length :: int                 \<comment> \<open>\<open>buffer.constants.MAX_LENGTH\<close>\<close>

datatype 'a promise = Fulfilled 'a | Rejected string

text \<open>\<open>Buffer.allocUnsafe(n)\<close> throws a range error outside \<open>0..MAX_LENGTH\<close>.\<close>

definition allocUnsafe :: "int \<Rightarrow> int \<Rightarrow> string + nat" where
  "allocUnsafe maxLength n =
     (if n < 0 \<or> maxLength < n then Inl ''ERR_OUT_OF_RANGE'' else Inr (nat n))"

text \<open>
  The body of the outer \<open>try\<close> (lines 67-77). The first component tells whether \<open>file\<close>
  was assigned; the second is the completion of the block: \<open>Inl\<close> for a thrown error,
  \<open>Inr\<close> for a returned string. \<open>utf8\<close> stands for \<open>buf.toString("utf8", 0, bytesRead)\<close>
  applied to the bytes the read delivered; it throws (\<open>Inl\<close>) when the decoded string
  would exceed the longest string the engine allows, and that throw is inside the \<open>try\<close>
  like the others.
\<close>

definition readFileLimited_try ::
  "(byte list \<Rightarrow> string + string) \<Rightarrow> file_behaviour \<Rightarrow> int \<Rightarrow> bool \<times> (string + string)"
where
  "readFileLimited_try utf8 f lengthLimit =
     (case open_error f of
        Some code \<Rightarrow> (False, if code = ''ENOENT'' then Inr [] else Inl code)
      | None \<Rightarrow>
          (True,
           case stat_result f of
             Inl e \<Rightarrow> Inl e
           | Inr actualSize \<Rightarrow>
               (case allocUnsafe (max_length f) (min actualSize lengthLimit) of
                  Inl e \<Rightarrow> Inl e
                | Inr bufLength \<Rightarrow>
                    (case read_result f of
                       Inl e \<Rightarrow> Inl e
                     | Inr delivered \<Rightarrow>
                         (case utf8 (take (min bufLength delivered) (content f)) of
                            Inl e \<Rightarrow> Inl e
                          | Inr ret \<Rightarrow> Inr ret)))))"

text \<open>
  The whole function: the \<open>catch\<close> of line 78 turns a thrown error into \<open>""\<close>; the
  \<open>finally\<close> of lines 80-82 awaits \<open>file.close()\<close> when \<open>file\<close> is set, and a rejection
  there replaces the completion of the function. The second component counts the calls
  of \<open>close\<close>.
\<close>

definition readFileLimited ::
  "(byte list \<Rightarrow> string + string) \<Rightarrow> (string \<Rightarrow> file_behaviour) \<Rightarrow> string \<Rightarrow> int
     \<Rightarrow> string promise \<times> nat"
where
  "readFileLimited utf8 fs filePath lengthLimit =
     (case readFileLimited_try utf8 (fs filePath) lengthLimit of
        (file_set, completion) \<Rightarrow>
          (let ret = (case completion of Inl e \<Rightarrow> [] | Inr s \<Rightarrow> s) in
           if file_set then
             (case close_error (fs filePath) of
                Some e \<Rightarrow> (Rejected e, 1)
              | None \<Rightarrow> (Fulfilled ret, 1))
           else (Fulfilled ret, 0)))"

section \<open>download (utils.ts, lines 129-185)\<close>

subsection \<open>Configuration and the outside world\<close>

text \<open>The two values read from \<open>config\<close>, both integral.\<close>

record config =
  downloadRetry :: int
  downloadTimeout :: int

text \<open>
  The event the file stream emits to the listeners of lines 163-164; \<open>StreamError\<close>
  carries the error Node hands to an \<open>error\<close> listener.
\<close>

datatype stream_signal = Finish | StreamError string

text \<open>
  Once the response has arrived, either the file stream emits its event before the timer
  of line 151 fires (\<open>Signalled\<close>), or the timer fires first and the stream then emits an
  event or stays silent (\<open>TimerFirst\<close>). The code does nothing to make the stream emit
  after the abort: the promise of line 157 listens to the file stream only, and \<open>pipe\<close>
  passes neither the error nor the end of an aborted response on to its destination.
  So \<open>TimerFirst None\<close> is what a body that outlasts the timer gives, and
  \<open>TimerFirst (Some s)\<close> needs an event of the file stream's own that happens to follow
  the abort, such as a failed write.
\<close>

datatype body_outcome = Signalled stream_signal | TimerFirst "stream_signal option"

text \<open>
  What the destination and the remote source do during one attempt. The destination
  cannot be opened: the stream emits \<open>error\<close> while the request is awaited, before line
  164 has attached a listener. Or the request promise of line 143 is not settled, or
  rejects with an error (given by its string rendering), or resolves with a response
  whose body delivers the given bytes to the file stream. A request stays unsettled for
  as long as the transport waits: the agents of lines 130-135 give up on a socket after
  an hour without traffic, and a request ended that way is a \<open>RequestFails\<close>.
\<close>

datatype transfer =
    OpenFails string
  | NoResponse
  | RequestFails string
  | Response "byte list" body_outcome

text \<open>A source gives the behaviour of each successive attempt.\<close>

type_synonym source = "nat \<Rightarrow> transfer"

subsection \<open>The state of one loop iteration\<close>

datatype timer_state = Unarmed | Armed | Fired | Cleared

text \<open>
  The descriptor behind \<open>fileStream\<close>: none (the open failed), open, or closing. A
  stream releases its descriptor asynchronously; nothing in \<open>download\<close> waits for the
  release, so within an attempt a descriptor is never seen released.
\<close>

datatype handle_state = NoHandle | HandleOpen | HandleClosing

datatype event =
    CreateWriteStream string
  | AxiosRequest string
  | SetTimeout int
  | Pipe "byte list"
  | Abort
  | Emitted stream_signal
  | ClearTimeout
  | Close

text \<open>
  The locals of one iteration (\<open>timeoutTimer\<close>, \<open>abortController.signal.aborted\<close>,
  \<open>fileStream\<close>) and the calls it made, in program order.
\<close>

record frame =
  events :: "event list"
  timer :: timer_state
  aborted :: bool
  fileStream :: handle_state

text \<open>
  How the awaited part of an iteration ends: it resolves, it throws (\<open>e\<close> of the \<open>catch\<close>
  is \<open>None\<close> for \<open>undefined\<close>), it stays pending, or an \<open>error\<close> event without a listener
  is raised as an uncaught exception outside the function.
\<close>

datatype settled = Resolved | Thrown "string option" | Pending | Uncaught string

type_synonym files = "string \<Rightarrow> byte list option"

record world =
  disk :: files
  history :: "frame list"

text \<open>
  How a call ends. \<open>Hung\<close>: the promise that \<open>download\<close> returned never settles.
  \<open>Crashed\<close>: an uncaught exception was raised; the call does not go on.
\<close>

datatype outcome = Returned | Threw string | Hung | Crashed string

subsection \<open>Timers, streams and files\<close>

text \<open>\<open>clearTimeout\<close> cancels a timer that is still pending and does nothing otherwise.\<close>

definition clearTimeout :: "timer_state \<Rightarrow> timer_state" where
  "clearTimeout t = (if t = Armed then Cleared else t)"

definition timer_fires :: "timer_state \<Rightarrow> timer_state" where
  "timer_fires t = (if t = Armed then Fired else t)"

text \<open>
  \<open>fileStream.close()\<close> at line 181, and the closing a write stream starts by itself
  after \<open>finish\<close> or \<open>error\<close> (\<open>autoClose\<close>): the release of an open descriptor is
  requested, not awaited; on a stream already closing, or without a descriptor, nothing
  changes.
\<close>

definition stream_close :: "handle_state \<Rightarrow> handle_state" where
  "stream_close h =
     (case h of NoHandle \<Rightarrow> NoHandle | HandleOpen \<Rightarrow> HandleClosing | HandleClosing \<Rightarrow> HandleClosing)"

text \<open>
  \<open>fs.createWriteStream(destination)\<close> opens with flag \<open>w\<close>: the file is created or
  truncated. When the open fails there is no descriptor and the file is left as it was.
\<close>

definition createWriteStream :: "files \<Rightarrow> string \<Rightarrow> string option \<Rightarrow> handle_state \<times> files" where
  "createWriteStream d destination failure =
     (case failure of
        None \<Rightarrow> (HandleOpen, d(destination \<mapsto> []))
      | Some c \<Rightarrow> (NoHandle, d))"

text \<open>\<open>response.data.pipe(fileStream)\<close>: the bytes are appended to what the stream wrote so far.\<close>

definition pipe_bytes :: "files \<Rightarrow> string \<Rightarrow> byte list \<Rightarrow> files" where
  "pipe_bytes d destination bytes =
     d(destination \<mapsto> (case d destination of None \<Rightarrow> bytes | Some old \<Rightarrow> old @ bytes))"

subsection \<open>Numbers in template literals\<close>

definition digit_char :: "int \<Rightarrow> char" where
  "digit_char n = char_of (48 + n)"

text \<open>The decimal digits of a non-negative integer.\<close>

function digits_of :: "int \<Rightarrow> string" where
  "digits_of n = (if n < 10 then [digit_char n] else digits_of (n div 10) @ [digit_char (n mod 10)])"
  by pat_completeness auto
termination
  by (relation "measure nat") auto

function bit_length :: "int \<Rightarrow> nat" where
  "bit_length n = (if n \<le> 0 then 0 else Suc (bit_length (n div 2)))"
  by pat_completeness auto
termination
  by (relation "measure nat") auto

text \<open>
  A number of the language is a binary64 value: an integer of more than 53 bits is
  rounded to the nearest value with a 53-bit significand, ties to the even one.
\<close>

definition to_double :: "int \<Rightarrow> int" where
  "to_double y =
     (if y < 2 ^ 53 then y
      else
        (let e = bit_length y - 53;
             q = y div 2 ^ e;
             r = y mod 2 ^ e;
             h = 2 ^ (e - 1)
         in (if h < r \<or> (r = h \<and> odd q) then q + 1 else q) * 2 ^ e))"

text \<open>
  \<open>Number::toString\<close> looks for the fewest digits \<open>s\<close> such that \<open>s\<close> followed by zeros is
  read back as the same value, and among those for the nearest. \<open>search_digits x n ks\<close>
  tries the digit counts \<open>ks\<close> in turn for a value \<open>x\<close> of \<open>n\<close> decimal digits and returns
  \<open>s\<close> with the number of zeros that follow it.
\<close>

fun search_digits :: "int \<Rightarrow> nat \<Rightarrow> nat list \<Rightarrow> int \<times> nat" where
  "search_digits x n [] = (x, 0)"
| "search_digits x n (k # ks) =
     (let p = 10 ^ (n - k);
          lo = x div p
      in if to_double (lo * p) = x then
           (if to_double ((lo + 1) * p) = x
               \<and> ((lo + 1) * p - x < x - lo * p \<or> ((lo + 1) * p - x = x - lo * p \<and> odd lo))
            then (lo + 1, n - k) else (lo, n - k))
         else if to_double ((lo + 1) * p) = x then (lo + 1, n - k)
         else search_digits x n ks)"

definition shortest_digits :: "int \<Rightarrow> int \<times> nat" where
  "shortest_digits x =
     (let n = length (digits_of x) in
      if to_double (10 ^ n) = x then (1, n) else search_digits x n [1..<Suc n])"

text \<open>
  The rendering of a non-negative integral number: plain digits up to 21 of them, the
  exponent form beyond, \<open>Infinity\<close> past the largest finite value.
\<close>

definition string_of_number :: "int \<Rightarrow> string" where
  "string_of_number i =
     (let x = to_double i in
      if 2 ^ 1024 \<le> x then ''Infinity''
      else
        (case shortest_digits x of
           (s, zeros) \<Rightarrow>
             (let m = digits_of s;
                  n = length m + zeros
              in if n \<le> 21 then m @ replicate zeros (CHR ''0'')
                 else
                   (let sig = rev (dropWhile (\<lambda>c. c = CHR ''0'') (rev m)) in
                    (if length sig \<le> 1 then sig else hd sig # CHR ''.'' # tl sig)
                      @ ''e+'' @ digits_of (int n - 1)))))"

text \<open>The template literal's rendering of an integral number, line 174.\<close>

definition string_of_int :: "int \<Rightarrow> string" where
  "string_of_int i = (if i < 0 then CHR ''-'' # string_of_number (- i) else string_of_number i)"

subsection \<open>Messages\<close>

text \<open>The rendering of the caught value \<open>e\<close> inside the template literal of line 179.\<close>

definition string_of_caught :: "string option \<Rightarrow> string" where
  "string_of_caught e = (case e of None \<Rightarrow> ''undefined'' | Some s \<Rightarrow> s)"

definition timeout_message :: "config \<Rightarrow> string \<Rightarrow> string" where
  "timeout_message cfg description =
     ''Failed to download '' @ description @ '': timed-out after ''
       @ string_of_int (downloadTimeout cfg) @ ''ms for ''
       @ string_of_int (downloadRetry cfg) @ '' times''"

definition failure_message :: "string \<Rightarrow> string option \<Rightarrow> string" where
  "failure_message description e = ''Failed to download '' @ description @ '': '' @ string_of_caught e"

subsection \<open>One attempt\<close>

text \<open>
  The closure \<open>finish\<close> with the listener that called it (lines 158-164): the timer is
  cleared, then \<open>resolve()\<close> or \<open>reject()\<close> is called without an argument. After the
  event the stream starts closing by itself.
\<close>

definition finish :: "stream_signal \<Rightarrow> frame \<Rightarrow> settled \<times> frame" where
  "finish s fr =
     (let fr' = fr\<lparr>events := events fr @ [Emitted s, ClearTimeout],
                   timer := clearTimeout (timer fr),
                   fileStream := stream_close (fileStream fr)\<rparr>
      in case s of Finish \<Rightarrow> (Resolved, fr') | StreamError c \<Rightarrow> (Thrown None, fr'))"

definition open_failure :: "transfer \<Rightarrow> string option" where
  "open_failure tr = (case tr of OpenFails c \<Rightarrow> Some c | _ \<Rightarrow> None)"

text \<open>The \<open>try\<close> block of one iteration, lines 139-168.\<close>

definition try_block :: "config \<Rightarrow> string \<Rightarrow> string \<Rightarrow> transfer \<Rightarrow> files \<Rightarrow> settled \<times> frame \<times> files" where
  "try_block cfg url destination tr d =
     (case createWriteStream d destination (open_failure tr) of
        (h, d1) \<Rightarrow>
          (let fr1 = \<lparr>events = [CreateWriteStream destination, AxiosRequest url],
                     timer = Unarmed, aborted = False, fileStream = h\<rparr>
           in case tr of
                OpenFails c \<Rightarrow>
                  (Uncaught c, fr1\<lparr>events := events fr1 @ [Emitted (StreamError c)]\<rparr>, d1)
              | NoResponse \<Rightarrow> (Pending, fr1, d1)
              | RequestFails c \<Rightarrow> (Thrown (Some c), fr1, d1)
              | Response bytes out \<Rightarrow>
                  (let fr2 = fr1\<lparr>events := events fr1 @ [SetTimeout (downloadTimeout cfg), Pipe bytes],
                                 timer := Armed\<rparr>;
                       d2 = pipe_bytes d1 destination bytes
                   in case out of
                        Signalled s \<Rightarrow> (case finish s fr2 of (r, fr3) \<Rightarrow> (r, fr3, d2))
                      | TimerFirst after \<Rightarrow>
                          (let fr3 = fr2\<lparr>events := events fr2 @ [Abort],
                                         timer := timer_fires (timer fr2),
                                         aborted := True\<rparr>
                           in case after of
                                None \<Rightarrow> (Pending, fr3, d2)
                              | Some s \<Rightarrow> (case finish s fr3 of (r, fr4) \<Rightarrow> (r, fr4, d2))))))"

text \<open>The \<open>finally\<close> block, lines 180-182.\<close>

definition finally_block :: "frame \<Rightarrow> frame" where
  "finally_block fr = fr\<lparr>events := events fr @ [Close], fileStream := stream_close (fileStream fr)\<rparr>"

text \<open>
  One iteration up to the point where control leaves it. \<open>finally\<close> runs when the \<open>try\<close>
  block resolves or throws; a pending \<open>await\<close> never reaches it, nor does an exception
  raised outside the function.
\<close>

definition attempt :: "config \<Rightarrow> string \<Rightarrow> string \<Rightarrow> transfer \<Rightarrow> files \<Rightarrow> settled \<times> frame \<times> files" where
  "attempt cfg url destination tr d =
     (case try_block cfg url destination tr d of
        (r, fr, d') \<Rightarrow>
          (r,
           (case r of
              Resolved \<Rightarrow> finally_block fr
            | Thrown e \<Rightarrow> finally_block fr
            | Pending \<Rightarrow> fr
            | Uncaught c \<Rightarrow> fr),
           d'))"

subsection \<open>The retry loop\<close>

function download_loop ::
  "config \<Rightarrow> string \<Rightarrow> string \<Rightarrow> string \<Rightarrow> source \<Rightarrow> int \<Rightarrow> world \<Rightarrow> outcome \<times> world"
where
  "download_loop cfg url destination description src retry w =
     (if retry \<ge> 0 then
        (case attempt cfg url destination (src 0) (disk w) of
           (r, fr, d) \<Rightarrow>
             (case r of
                Pending \<Rightarrow> (Hung, \<lparr>disk = d, history = history w @ [fr]\<rparr>)
              | Uncaught c \<Rightarrow> (Crashed c, \<lparr>disk = d, history = history w @ [fr]\<rparr>)
              | Resolved \<Rightarrow> (Returned, \<lparr>disk = d, history = history w @ [fr]\<rparr>)
              | Thrown e \<Rightarrow>
                  if retry \<noteq> 0 then
                    download_loop cfg url destination description (\<lambda>i. src (Suc i)) (retry - 1)
                      \<lparr>disk = d, history = history w @ [fr]\<rparr>
                  else if aborted fr then
                    (Threw (timeout_message cfg description), \<lparr>disk = d, history = history w @ [fr]\<rparr>)
                  else
                    (Threw (failure_message description e), \<lparr>disk = d, history = history w @ [fr]\<rparr>)))
      else (Returned, w))"
  by pat_completeness auto
termination
  by (relation "measure (\<lambda>(cfg, url, destination, description, src, retry, w). nat (retry + 1))") auto

definition download :: "config \<Rightarrow> string \<Rightarrow> string \<Rightarrow> string \<Rightarrow> source \<Rightarrow> files \<Rightarrow> outcome \<times> world" where
  "download cfg url destination description src d =
     download_loop cfg url destination description src (downloadRetry cfg - 1) \<lparr>disk = d, history = []\<rparr>"

subsection \<open>Observations\<close>

text \<open>
  How an attempt ends, read off the behaviour of the outside world: it throws into the
  \<open>catch\<close> block, it resolves, or it does neither and the call stops there.
\<close>

fun attempt_fails :: "transfer \<Rightarrow> bool" where
  "attempt_fails (RequestFails c) = True"
| "attempt_fails (Response bytes (Signalled (StreamError c))) = True"
| "attempt_fails (Response bytes (TimerFirst (Some (StreamError c)))) = True"
| "attempt_fails _ = False"

fun attempt_succeeds :: "transfer \<Rightarrow> bool" where
  "attempt_succeeds (Response bytes (Signalled Finish)) = True"
| "attempt_succeeds (Response bytes (TimerFirst (Some Finish))) = True"
| "attempt_succeeds _ = False"

definition stopped :: "transfer \<Rightarrow> outcome" where
  "stopped tr = (case tr of OpenFails c \<Rightarrow> Crashed c | _ \<Rightarrow> Hung)"

definition is_request :: "event \<Rightarrow> bool" where
  "is_request ev = (case ev of AxiosRequest u \<Rightarrow> True | _ \<Rightarrow> False)"

text \<open>The number of requests sent to the network during a call.\<close>

definition requests :: "world \<Rightarrow> nat" where
  "requests w = length (filter is_request (concat (map events (history w))))"

text \<open>The world once an attempt has been made in it, and after the first \<open>n\<close> attempts of a source.\<close>

definition record_attempt :: "config \<Rightarrow> string \<Rightarrow> string \<Rightarrow> transfer \<Rightarrow> world \<Rightarrow> world" where
  "record_attempt cfg url destination tr w =
     (case attempt cfg url destination tr (disk w) of
        (r, fr, d) \<Rightarrow> \<lparr>disk = d, history = history w @ [fr]\<rparr>)"

fun replay :: "config \<Rightarrow> string \<Rightarrow> string \<Rightarrow> source \<Rightarrow> nat \<Rightarrow> world \<Rightarrow> world" where
  "replay cfg url destination src 0 w = w"
| "replay cfg url destination src (Suc n) w =
     record_attempt cfg url destination (src n) (replay cfg url destination src n w)"

text \<open>The bytes an attempt delivers to the file stream.\<close>

fun body :: "transfer \<Rightarrow> byte list" where
  "body (Response bytes out) = bytes"
| "body _ = []"

text \<open>
  For an attempt that ends in the \<open>catch\<close> block: whether \<open>abortController.signal.aborted\<close>
  is set there, the value \<open>e\<close> caught, and the message thrown when \<open>retry\<close> is 0
  (lines 172-179).
\<close>

fun timed_out :: "transfer \<Rightarrow> bool" where
  "timed_out (Response bytes (TimerFirst after)) = True"
| "timed_out _ = False"

fun caught :: "transfer \<Rightarrow> string option" where
  "caught (RequestFails c) = Some c"
| "caught _ = None"

definition final_message :: "config \<Rightarrow> string \<Rightarrow> transfer \<Rightarrow> string" where
  "final_message cfg description tr =
     (if timed_out tr then timeout_message cfg description
      else failure_message description (caught tr))"

section \<open>Concrete runs\<close>

text \<open>Inputs on which the definitions above are evaluated.\<close>

definition five_tries :: config where
  "five_tries = \<lparr>downloadRetry = 5, downloadTimeout = 100\<rparr>"

definition two_tries :: config where
  "two_tries = \<lparr>downloadRetry = 2, downloadTimeout = 100\<rparr>"

definition one_try :: config where
  "one_try = \<lparr>downloadRetry = 1, downloadTimeout = 30000\<rparr>"

definition no_files :: files where
  "no_files = Map.empty"

definition stale_files :: files where
  "stale_files = [''/tmp/data.bin'' \<mapsto> [9, 9, 9, 9, 9, 9, 9]]"

definition hello :: "byte list" where
  "hello = [104, 101, 108, 108, 111]"

text \<open>
  Two attempts in which the timer fires after two bytes and a write to the destination
  then fails, so that the file stream reports an error after the abort; then a complete
  transfer.
\<close>

fun flaky_source :: source where
  "flaky_source i =
     (if i < 2 then Response [104, 101] (TimerFirst (Some (StreamError ''aborted'')))
      else Response hello (Signalled Finish))"

text \<open>Every connection is refused.\<close>

fun refusing_source :: source where
  "refusing_source i = RequestFails ''Error: connect ECONNREFUSED 127.0.0.1:80''"

text \<open>
  The first response stalls after two bytes until the timer fires; every later request
  would be served in full.
\<close>

fun slow_first_source :: source where
  "slow_first_source i =
     (if i = 0 then Response [104, 101] (TimerFirst None) else Response hello (Signalled Finish))"

text \<open>Every response stalls after its headers until the timer fires.\<close>

fun stalling_source :: source where
  "stalling_source i = Response [] (TimerFirst None)"

text \<open>The first response stalls until the timer fires; afterwards the connection is refused.\<close>

fun stalled_then_refused_source :: source where
  "stalled_then_refused_source i =
     (if i = 0 then Response [] (TimerFirst None)
      else RequestFails ''Error: connect ECONNREFUSED 127.0.0.1:80'')"


text \<open>The destination cannot be opened.\<close>

fun unwritable_source :: source where
  "unwritable_source i = OpenFails ''Error: EACCES: permission denied, open''"

text \<open>The response arrives, and the write to the destination fails after two bytes.\<close>

fun disk_full_source :: source where
  "disk_full_source i =
     Response [104, 101] (Signalled (StreamError ''Error: ENOSPC: no space left on device, write''))"

text \<open>
  Bytes read as characters one to one, which agrees with UTF-8 on bytes below 128; the
  conversion throws beyond 536870888 characters, the longest string of the engine.
\<close>

definition decode_bytes :: "byte list \<Rightarrow> string + string" where
  "decode_bytes bs =
     (if 536870888 < int (length bs) then Inl ''ERR_STRING_TOO_LONG''
      else Inr (map (\<lambda>b. char_of (unat b)) bs))"

definition readable_file :: "string \<Rightarrow> file_behaviour" where
  "readable_file p =
     \<lparr>open_error = None, stat_result = Inr 5, read_result = Inr 3, content = hello,
      close_error = None, max_length = 4294967296\<rparr>"

definition unclosable_file :: "string \<Rightarrow> file_behaviour" where
  "unclosable_file p =
     \<lparr>open_error = None, stat_result = Inr 5, read_result = Inr 5, content = hello,
      close_error = Some ''EIO'', max_length = 4294967296\<rparr>"

section \<open>Theorems\<close>

subsection \<open>The retry loop, attempt by attempt\<close>

lemmas attempt_unfold =
  attempt_def try_block_def finish_def finally_block_def createWriteStream_def open_failure_def Let_def

text \<open>
  The predicates on the outside world agree with what the code observes: an attempt
  resolves exactly when \<open>attempt_succeeds\<close> holds, it throws the value \<open>caught\<close> exactly
  when \<open>attempt_fails\<close> holds, and the signal is aborted exactly when \<open>timed_out\<close> holds.
\<close>

lemma attempt_succeeds_iff:
  "fst (attempt cfg url dst tr d) = Resolved \<longleftrightarrow> attempt_succeeds tr"
  by (cases tr rule: attempt_succeeds.cases) (simp_all add: attempt_unfold)

lemma attempt_fails_iff:
  "fst (attempt cfg url dst tr d) = Thrown (caught tr) \<longleftrightarrow> attempt_fails tr"
  by (cases tr rule: attempt_fails.cases) (simp_all add: attempt_unfold)

lemma attempt_aborted:
  "aborted (fst (snd (attempt cfg url dst tr d))) = timed_out tr"
  by (cases tr rule: attempt_fails.cases) (simp_all add: attempt_unfold)

lemma fails_not_succeeds: "attempt_fails tr \<Longrightarrow> \<not> attempt_succeeds tr"
  by (cases tr rule: attempt_fails.cases) simp_all

text \<open>One iteration of the loop, by the way its attempt ends.\<close>

lemmas loop_unfold = download_loop.simps
declare download_loop.simps [simp del]

lemma replay_shift:
  "replay cfg url dst src (Suc n) w =
     replay cfg url dst (\<lambda>i. src (Suc i)) n (record_attempt cfg url dst (src 0) w)"
  by (induction n) simp_all

lemma loop_negative:
  "retry < 0 \<Longrightarrow> download_loop cfg url dst desc src retry w = (Returned, w)"
  by (simp add: loop_unfold)

lemma loop_success:
  "0 \<le> retry \<Longrightarrow> attempt_succeeds (src 0) \<Longrightarrow>
   download_loop cfg url dst desc src retry w = (Returned, record_attempt cfg url dst (src 0) w)"
  using attempt_succeeds_iff [of cfg url dst "src 0" "disk w"]
  by (subst loop_unfold) (auto simp: record_attempt_def split: prod.splits)

lemma loop_retry:
  "0 < retry \<Longrightarrow> attempt_fails (src 0) \<Longrightarrow>
   download_loop cfg url dst desc src retry w =
     download_loop cfg url dst desc (\<lambda>i. src (Suc i)) (retry - 1) (record_attempt cfg url dst (src 0) w)"
  using attempt_fails_iff [of cfg url dst "src 0" "disk w"]
  by (subst loop_unfold) (auto simp: record_attempt_def split: prod.splits)

lemma loop_final:
  "attempt_fails (src 0) \<Longrightarrow>
   download_loop cfg url dst desc src 0 w =
     (Threw (final_message cfg desc (src 0)), record_attempt cfg url dst (src 0) w)"
  using attempt_fails_iff [of cfg url dst "src 0" "disk w"]
        attempt_aborted [of cfg url dst "src 0" "disk w"]
  by (subst loop_unfold) (auto simp: record_attempt_def final_message_def split: prod.splits)

lemma loop_stopped:
  "0 \<le> retry \<Longrightarrow> \<not> attempt_fails (src 0) \<Longrightarrow> \<not> attempt_succeeds (src 0) \<Longrightarrow>
   download_loop cfg url dst desc src retry w = (stopped (src 0), record_attempt cfg url dst (src 0) w)"
  apply (subst loop_unfold)
  apply (cases "src 0" rule: attempt_fails.cases)
  apply (auto simp: record_attempt_def attempt_unfold stopped_def split: prod.splits)
  done

text \<open>
  A run of \<open>f\<close> failed attempts: it exhausts the budget and throws the message of the
  last one, or leaves the loop at \<open>retry - f\<close> in the world those attempts made.
\<close>

lemma loop_after_failures:
  "\<forall>i<f. attempt_fails (src i) \<Longrightarrow> int f \<le> retry + 1 \<Longrightarrow>
   download_loop cfg url dst desc src retry w =
     (if int f = retry + 1 \<and> 0 < f then (Threw (final_message cfg desc (src (f - 1))), replay cfg url dst src f w)
      else download_loop cfg url dst desc (\<lambda>i. src (i + f)) (retry - int f) (replay cfg url dst src f w))"
proof (induction f arbitrary: src retry w)
  case 0
  then show ?case by simp
next
  case (Suc f)
  note replay.simps(2) [simp del]
  have f0: "attempt_fails (src 0)" using Suc.prems by simp
  have rest: "\<forall>i<f. attempt_fails (src (Suc i))" using Suc.prems by simp
  show ?case
  proof (cases "retry = 0")
    case True
    with Suc.prems have "f = 0" by simp
    with True f0 show ?thesis by (simp add: loop_final replay_shift [of _ _ _ src])
  next
    case False
    with Suc.prems have pos: "0 < retry" by simp
    have le: "int f \<le> (retry - 1) + 1" using Suc.prems by simp
    have ar: "retry - 1 - int f = retry - int (Suc f)" by simp
    show ?thesis
      using Suc.IH [of "\<lambda>i. src (Suc i)" "retry - 1" "record_attempt cfg url dst (src 0) w", OF rest le] pos False
      unfolding ar
      by (simp add: loop_retry [of retry src, OF pos f0] replay_shift [of _ _ _ src])
  qed
qed

text \<open>
  The four ways a call of the loop ends: without an attempt, at a success, at an attempt
  that neither resolves nor throws, or with the budget used up.
\<close>

lemma loop_cases:
  obtains
    (skipped) "retry < 0" "download_loop cfg url dst desc src retry w = (Returned, w)"
  | (success) f where "\<forall>i<f. attempt_fails (src i)" "attempt_succeeds (src f)" "int f \<le> retry"
      "download_loop cfg url dst desc src retry w = (Returned, replay cfg url dst src (Suc f) w)"
  | (stuck) f where "\<forall>i<f. attempt_fails (src i)" "\<not> attempt_fails (src f)"
      "\<not> attempt_succeeds (src f)" "int f \<le> retry"
      "download_loop cfg url dst desc src retry w = (stopped (src f), replay cfg url dst src (Suc f) w)"
  | (failed) "0 \<le> retry" "\<forall>i<nat (retry + 1). attempt_fails (src i)"
      "download_loop cfg url dst desc src retry w =
         (Threw (final_message cfg desc (src (nat retry))), replay cfg url dst src (nat (retry + 1)) w)"
proof (cases "retry < 0")
  case True
  then show ?thesis using skipped loop_negative by simp
next
  case nonneg: False
  show ?thesis
  proof (cases "\<forall>i<nat (retry + 1). attempt_fails (src i)")
    case True
    have "int (nat (retry + 1)) \<le> retry + 1" using nonneg by simp
    from loop_after_failures [OF True this, of cfg url dst desc w] nonneg
    have "download_loop cfg url dst desc src retry w =
         (Threw (final_message cfg desc (src (nat (retry + 1) - 1))), replay cfg url dst src (nat (retry + 1)) w)"
      by simp
    moreover have "nat (retry + 1) - 1 = nat retry" using nonneg by simp
    ultimately show ?thesis using failed nonneg True by simp
  next
    case False
    define f where "f = (LEAST i. \<not> attempt_fails (src i))"
    from False obtain j where j: "j < nat (retry + 1)" "\<not> attempt_fails (src j)" by blast
    have nf: "\<not> attempt_fails (src f)" unfolding f_def using j(2) by (rule LeastI)
    have fj: "f \<le> j" unfolding f_def using j(2) by (rule Least_le)
    have pre: "\<forall>i<f. attempt_fails (src i)"
      unfolding f_def using not_less_Least by blast
    have le: "int f \<le> retry" using fj j(1) by linarith
    have le1: "int f \<le> retry + 1" using le by simp
    have ne: "int f \<noteq> retry + 1" using le by simp
    have step: "download_loop cfg url dst desc src retry w =
       download_loop cfg url dst desc (\<lambda>i. src (i + f)) (retry - int f) (replay cfg url dst src f w)"
      using loop_after_failures [OF pre le1, of cfg url dst desc w] ne by simp
    have r0: "0 \<le> retry - int f" using le by simp
    show ?thesis
    proof (cases "attempt_succeeds (src f)")
      case True
      with r0 step
        loop_success [of "retry - int f" "\<lambda>i. src (i + f)" cfg url dst desc "replay cfg url dst src f w"]
      show ?thesis using success [OF pre True le] by simp
    next
      case False
      with r0 nf step
        loop_stopped [of "retry - int f" "\<lambda>i. src (i + f)" cfg url dst desc "replay cfg url dst src f w"]
      show ?thesis using stuck [OF pre nf False le] by simp
    qed
  qed
qed

lemma history_record_attempt:
  "history (record_attempt cfg url dst tr w) = history w @ [fst (snd (attempt cfg url dst tr (disk w)))]"
  by (simp add: record_attempt_def split: prod.splits)

lemma length_history_replay:
  "length (history (replay cfg url dst src n w)) = length (history w) + n"
  by (induction n) (simp_all add: history_record_attempt)

lemma history_replay_nth:
  "i < n \<Longrightarrow>
   history (replay cfg url dst src n w) ! (length (history w) + i) =
     fst (snd (attempt cfg url dst (src i) (disk (replay cfg url dst src i w))))"
proof (induction n)
  case 0
  then show ?case by simp
next
  case (Suc n)
  show ?case
  proof (cases "i = n")
    case True
    then show ?thesis
      by (simp add: history_record_attempt nth_append length_history_replay)
  next
    case False
    with Suc.prems have "i < n" by simp
    with Suc.IH show ?thesis
      by (simp add: history_record_attempt nth_append length_history_replay)
  qed
qed

text \<open>
  After an attempt the destination holds the bytes of that attempt alone, unless it
  could not be opened: then it is as it was.
\<close>

lemma disk_record_attempt:
  "disk (record_attempt cfg url dst tr w) dst =
     (case tr of OpenFails c \<Rightarrow> disk w dst | _ \<Rightarrow> Some (body tr))"
  by (cases tr rule: attempt_fails.cases)
     (simp_all add: record_attempt_def attempt_unfold pipe_bytes_def)

lemma disk_replay:
  "attempt_fails (src n) \<or> attempt_succeeds (src n) \<Longrightarrow>
   disk (replay cfg url dst src (Suc n) w) dst = Some (body (src n))"
  by (cases "src n" rule: attempt_fails.cases) (auto simp: disk_record_attempt)

text \<open>Every call leaves the world of some number of attempts of its source.\<close>

lemma download_replay:
  "\<exists>k. snd (download cfg url dst desc src d) = replay cfg url dst src k \<lparr>disk = d, history = []\<rparr>"
proof (cases cfg url dst desc src "downloadRetry cfg - 1" "\<lparr>disk = d, history = []\<rparr>" rule: loop_cases)
  case skipped
  then have "snd (download cfg url dst desc src d) = replay cfg url dst src 0 \<lparr>disk = d, history = []\<rparr>"
    by (simp add: download_def)
  then show ?thesis by blast
next
  case (success f)
  then have "snd (download cfg url dst desc src d) = replay cfg url dst src (Suc f) \<lparr>disk = d, history = []\<rparr>"
    by (simp add: download_def del: replay.simps)
  then show ?thesis by blast
next
  case (stuck f)
  then have "snd (download cfg url dst desc src d) = replay cfg url dst src (Suc f) \<lparr>disk = d, history = []\<rparr>"
    by (simp add: download_def del: replay.simps)
  then show ?thesis by blast
next
  case failed
  then have "snd (download cfg url dst desc src d)
      = replay cfg url dst src (nat (downloadRetry cfg)) \<lparr>disk = d, history = []\<rparr>"
    by (simp add: download_def del: replay.simps)
  then show ?thesis by blast
qed

lemma download_frame:
  assumes "i < length (history (snd (download cfg url dst desc src d)))"
  obtains d' where
    "history (snd (download cfg url dst desc src d)) ! i = fst (snd (attempt cfg url dst (src i) d'))"
proof -
  obtain k where k:
    "snd (download cfg url dst desc src d) = replay cfg url dst src k \<lparr>disk = d, history = []\<rparr>"
    using download_replay [of cfg url dst desc src d] by blast
  have ik: "i < k" using assms k by (simp add: length_history_replay)
  from history_replay_nth [OF ik, of cfg url dst src "\<lparr>disk = d, history = []\<rparr>"] k
  have "history (snd (download cfg url dst desc src d)) ! i =
      fst (snd (attempt cfg url dst (src i) (disk (replay cfg url dst src i \<lparr>disk = d, history = []\<rparr>))))"
    by simp
  then show ?thesis using that by blast
qed

text \<open>What one attempt leaves in its frame.\<close>

lemma frame_prefix:
  "take 2 (events (fst (snd (attempt cfg url dst tr d)))) = [CreateWriteStream dst, AxiosRequest url]"
  by (cases tr rule: attempt_fails.cases) (simp_all add: attempt_unfold)

lemma frame_timer:
  "timer (fst (snd (attempt cfg url dst tr d))) =
     (case tr of
        OpenFails c \<Rightarrow> Unarmed
      | NoResponse \<Rightarrow> Unarmed
      | RequestFails c \<Rightarrow> Unarmed
      | Response bytes (Signalled s) \<Rightarrow> Cleared
      | Response bytes (TimerFirst after) \<Rightarrow> Fired)"
  by (cases tr rule: attempt_fails.cases)
     (simp_all add: attempt_unfold clearTimeout_def timer_fires_def)

lemma frame_set_timeout:
  "SetTimeout (downloadTimeout cfg) \<in> set (events (fst (snd (attempt cfg url dst tr d))))
     \<longleftrightarrow> timer (fst (snd (attempt cfg url dst tr d))) \<noteq> Unarmed"
  by (cases tr rule: attempt_fails.cases)
     (simp_all add: attempt_unfold clearTimeout_def timer_fires_def)

lemma frame_abort:
  "Abort \<in> set (events (fst (snd (attempt cfg url dst tr d))))
     \<longleftrightarrow> timer (fst (snd (attempt cfg url dst tr d))) = Fired"
  by (cases tr rule: attempt_fails.cases)
     (simp_all add: attempt_unfold clearTimeout_def timer_fires_def)

lemma frame_cleared:
  "timer (fst (snd (attempt cfg url dst tr d))) = Cleared \<Longrightarrow>
   ClearTimeout \<in> set (events (fst (snd (attempt cfg url dst tr d))))"
  by (cases tr rule: attempt_fails.cases)
     (simp_all add: attempt_unfold clearTimeout_def timer_fires_def)

lemma frame_unarmed:
  "timer (fst (snd (attempt cfg url dst tr d))) = Unarmed \<Longrightarrow>
   ClearTimeout \<notin> set (events (fst (snd (attempt cfg url dst tr d))))"
  by (cases tr rule: attempt_fails.cases)
     (simp_all add: attempt_unfold clearTimeout_def timer_fires_def)



subsection \<open>Bounded retry\<close>

text \<open>
  C1. A source whose first attempt fails and whose second would succeed should be served
  with two requests when the budget is five. When the failure is a timeout, the timer
  fires and aborts the transfer, but the promise awaited at line 157 listens to the file
  stream only and never settles: the call hangs after one request, with four tries left.
\<close>

theorem timed_out_attempt_is_not_retried:
  "fst (download five_tries ''http://host/data.bin'' ''/tmp/data.bin'' ''testdata'' slow_first_source no_files) = Hung
   \<and> requests (snd (download five_tries ''http://host/data.bin'' ''/tmp/data.bin'' ''testdata'' slow_first_source no_files)) = 1"
  by code_simp

subsection \<open>The timer of an attempt\<close>

text \<open>
  C2, as the code has it. The timer is set only once the request has resolved with a
  response: every attempt begins with \<open>createWriteStream\<close> and the request, and
  \<open>setTimeout\<close> occurs exactly in the attempts that received a response. For such an
  attempt exactly one of the two takes effect: the timer is cleared when the file stream
  emits \<open>finish\<close> or \<open>error\<close> first, and it fires, calling \<open>abort\<close> and setting the signal's
  \<open>aborted\<close> flag, when it comes first. An attempt whose request is rejected or never
  answered has no timer: nothing fires and nothing is cleared.
\<close>

theorem timer_guard:
  assumes "i < length (history (snd (download cfg url dst desc src d)))"
  shows "take 2 (events (history (snd (download cfg url dst desc src d)) ! i))
             = [CreateWriteStream dst, AxiosRequest url]
       \<and> timer (history (snd (download cfg url dst desc src d)) ! i) =
           (case src i of
              OpenFails c \<Rightarrow> Unarmed
            | NoResponse \<Rightarrow> Unarmed
            | RequestFails c \<Rightarrow> Unarmed
            | Response bytes (Signalled s) \<Rightarrow> Cleared
            | Response bytes (TimerFirst after) \<Rightarrow> Fired)
       \<and> (SetTimeout (downloadTimeout cfg) \<in> set (events (history (snd (download cfg url dst desc src d)) ! i))
           \<longleftrightarrow> timer (history (snd (download cfg url dst desc src d)) ! i) \<noteq> Unarmed)
       \<and> (Abort \<in> set (events (history (snd (download cfg url dst desc src d)) ! i))
           \<longleftrightarrow> timer (history (snd (download cfg url dst desc src d)) ! i) = Fired)
       \<and> aborted (history (snd (download cfg url dst desc src d)) ! i)
           = (timer (history (snd (download cfg url dst desc src d)) ! i) = Fired)
       \<and> (timer (history (snd (download cfg url dst desc src d)) ! i) = Cleared \<longrightarrow>
            ClearTimeout \<in> set (events (history (snd (download cfg url dst desc src d)) ! i)))
       \<and> (timer (history (snd (download cfg url dst desc src d)) ! i) = Unarmed \<longrightarrow>
            ClearTimeout \<notin> set (events (history (snd (download cfg url dst desc src d)) ! i)))"
proof -
  obtain d' where fr:
    "history (snd (download cfg url dst desc src d)) ! i = fst (snd (attempt cfg url dst (src i) d'))"
    using assms by (rule download_frame)
  have ab: "aborted (fst (snd (attempt cfg url dst (src i) d')))
      = (timer (fst (snd (attempt cfg url dst (src i) d'))) = Fired)"
    unfolding attempt_aborted frame_timer
    by (cases "src i" rule: attempt_fails.cases) simp_all
  show ?thesis
    unfolding fr
    using frame_prefix [of cfg url dst "src i" d'] frame_timer [of cfg url dst "src i" d']
      frame_set_timeout [of cfg url dst "src i" d'] frame_abort [of cfg url dst "src i" d']
      frame_cleared [of cfg url dst "src i" d'] frame_unarmed [of cfg url dst "src i" d'] ab
    by simp
qed

text \<open>The first attempt against the flaky source: its timer fired.\<close>

theorem timer_guard_witness:
  "0 < length (history (snd (download five_tries ''http://host/data.bin'' ''/tmp/data.bin'' ''testdata'' flaky_source no_files)))
   \<and> timer (history (snd (download five_tries ''http://host/data.bin'' ''/tmp/data.bin'' ''testdata'' flaky_source no_files)) ! 0) = Fired
   \<and> aborted (history (snd (download five_tries ''http://host/data.bin'' ''/tmp/data.bin'' ''testdata'' flaky_source no_files)) ! 0)"
proof -
  have h: "0 < length (history (snd (download five_tries ''http://host/data.bin'' ''/tmp/data.bin'' ''testdata'' flaky_source no_files)))"
    by code_simp
  from timer_guard [OF h] h show ?thesis by simp
qed

text \<open>
  C2 as stated fails when the connection is refused: the only attempt of the call
  creates the stream, sends the request and calls \<open>close\<close>; no timer is set, so none
  fires and none is cancelled.
\<close>

theorem timer_not_armed_counterexample:
  "history (snd (download one_try ''http://host/data.bin'' ''/tmp/data.bin'' ''testdata'' refusing_source no_files)) =
     [\<lparr>events = [CreateWriteStream ''/tmp/data.bin'', AxiosRequest ''http://host/data.bin'', Close],
       timer = Unarmed, aborted = False, fileStream = HandleClosing\<rparr>]"
  by code_simp

subsection \<open>Timing out\<close>

text \<open>
  C3. Against a source that accepts every request and then sends nothing more, the call
  should fail with the timeout message after \<open>downloadRetry\<close> attempts. The first timer
  fires and the transfer is aborted, but nothing rejects the awaited promise: the call
  hangs in its first attempt and the message of lines 173-175 is never built.
\<close>

theorem stalled_download_hangs:
  "fst (download two_tries ''http://host/data.bin'' ''/tmp/data.bin'' ''testdata'' stalling_source no_files) = Hung
   \<and> requests (snd (download two_tries ''http://host/data.bin'' ''/tmp/data.bin'' ''testdata'' stalling_source no_files)) = 1
   \<and> map timer (history (snd (download two_tries ''http://host/data.bin'' ''/tmp/data.bin'' ''testdata'' stalling_source no_files))) = [Fired]
   \<and> map aborted (history (snd (download two_tries ''http://host/data.bin'' ''/tmp/data.bin'' ''testdata'' stalling_source no_files))) = [True]"
  by code_simp

subsection \<open>The error thrown\<close>

text \<open>
  C4. A failed call should throw either the timeout message or a message that names the
  description and wraps the underlying cause. When the file stream reports a write error
  on the last attempt, the listener of line 164 calls \<open>reject\<close> without the error, the
  \<open>catch\<close> block receives \<open>undefined\<close>, and the cause is absent from the message.
\<close>

theorem stream_error_cause_lost:
  "fst (download one_try ''http://host/data.bin'' ''/tmp/data.bin'' ''testdata'' disk_full_source no_files)
     = Threw ''Failed to download testdata: undefined''"
  by code_simp

subsection \<open>Errors before the final attempt\<close>

text \<open>
  C5. A timeout on an attempt that is not the last should be absorbed and followed by
  the next attempt, whose error is then the one thrown. With a budget of two, a first
  response that outlasts the timer leaves the call pending in its first attempt: nothing
  is absorbed, nothing is retried, and the refused second connection is never tried.
\<close>

theorem timeout_before_last_attempt_is_not_absorbed:
  "fst (download two_tries ''http://host/data.bin'' ''/tmp/data.bin'' ''testdata'' stalled_then_refused_source no_files) = Hung
   \<and> length (history (snd (download two_tries ''http://host/data.bin'' ''/tmp/data.bin'' ''testdata'' stalled_then_refused_source no_files))) = 1"
  by code_simp

text \<open>
  A destination that cannot be opened is not absorbed either: the stream emits \<open>error\<close>
  before any listener is attached, and the error is raised outside the loop.
\<close>

lemma unopenable_destination_crashes:
  "fst (download two_tries ''http://host/data.bin'' ''/tmp/data.bin'' ''testdata'' unwritable_source no_files)
     = Crashed ''Error: EACCES: permission denied, open''"
  by code_simp

subsection \<open>The destination file\<close>

text \<open>
  C6. Every attempt creates the write stream on the destination, truncating it, before it
  sends the request, and after an attempt the destination holds exactly the bytes of
  that attempt (a destination that cannot be opened is left as it was). So when attempts
  \<open>0..k\<close> fail, attempt \<open>k\<close> having written \<open>P\<close>, and attempt \<open>k + 1\<close> succeeds with body \<open>B\<close>
  within the budget, the destination holds \<open>P\<close> after attempt \<open>k\<close> and exactly \<open>B\<close> when the
  call returns.
\<close>

theorem destination_overwritten:
  "(\<forall>fr\<in>set (history (snd (download cfg url dst desc src d))).
        take 2 (events fr) = [CreateWriteStream dst, AxiosRequest url])
   \<and> disk (record_attempt cfg url dst tr w) dst
        = (case tr of OpenFails c \<Rightarrow> disk w dst | _ \<Rightarrow> Some (body tr))
   \<and> ((\<forall>i\<le>k. attempt_fails (src i)) \<and> body (src k) = P
        \<and> attempt_succeeds (src (Suc k)) \<and> body (src (Suc k)) = B
        \<and> int k + 2 \<le> downloadRetry cfg \<longrightarrow>
          disk (replay cfg url dst src (Suc k) \<lparr>disk = d, history = []\<rparr>) dst = Some P
        \<and> fst (download cfg url dst desc src d) = Returned
        \<and> disk (snd (download cfg url dst desc src d)) dst = Some B)"
proof (intro conjI impI ballI)
  fix fr assume "fr \<in> set (history (snd (download cfg url dst desc src d)))"
  then obtain i where i: "i < length (history (snd (download cfg url dst desc src d)))"
    and fr: "fr = history (snd (download cfg url dst desc src d)) ! i"
    by (auto simp: in_set_conv_nth)
  from i obtain d' where
    "history (snd (download cfg url dst desc src d)) ! i = fst (snd (attempt cfg url dst (src i) d'))"
    by (rule download_frame)
  with fr show "take 2 (events fr) = [CreateWriteStream dst, AxiosRequest url]"
    by (simp add: frame_prefix)
next
  show "disk (record_attempt cfg url dst tr w) dst
        = (case tr of OpenFails c \<Rightarrow> disk w dst | _ \<Rightarrow> Some (body tr))"
    by (rule disk_record_attempt)
next
  assume h: "(\<forall>i\<le>k. attempt_fails (src i)) \<and> body (src k) = P
        \<and> attempt_succeeds (src (Suc k)) \<and> body (src (Suc k)) = B
        \<and> int k + 2 \<le> downloadRetry cfg"
  let ?w = "\<lparr>disk = d, history = []\<rparr>"
  have fk: "attempt_fails (src k) \<or> attempt_succeeds (src k)" using h by simp
  have sk: "attempt_fails (src (Suc k)) \<or> attempt_succeeds (src (Suc k))" using h by simp
  show "disk (replay cfg url dst src (Suc k) ?w) dst = Some P"
    using h fk disk_replay [of src k cfg url dst ?w] by simp
  have fails: "\<forall>i<Suc k. attempt_fails (src i)" using h by (simp add: less_Suc_eq_le)
  have le: "int (Suc k) \<le> (downloadRetry cfg - 1) + 1" using h by simp
  have ne: "int (Suc k) \<noteq> (downloadRetry cfg - 1) + 1" using h by simp
  have step: "download cfg url dst desc src d =
      download_loop cfg url dst desc (\<lambda>i. src (i + Suc k)) (downloadRetry cfg - 1 - int (Suc k))
        (replay cfg url dst src (Suc k) ?w)"
    using loop_after_failures [OF fails le, of cfg url dst desc ?w] ne
    by (simp add: download_def del: replay.simps)
  have r: "0 \<le> downloadRetry cfg - 1 - int (Suc k)" using h by simp
  have run: "download cfg url dst desc src d =
      (Returned, replay cfg url dst src (Suc (Suc k)) ?w)"
    using loop_success [of "downloadRetry cfg - 1 - int (Suc k)" "\<lambda>i. src (i + Suc k)"
        cfg url dst desc "replay cfg url dst src (Suc k) ?w"] r h step
    by simp
  show "fst (download cfg url dst desc src d) = Returned" using run by simp
  show "disk (snd (download cfg url dst desc src d)) dst = Some B"
    using run h sk disk_replay [of src "Suc k" cfg url dst ?w] by (simp del: replay.simps)
qed

text \<open>
  The flaky source over a stale file: the second attempt leaves two bytes, the third
  succeeds, and the destination holds \<open>hello\<close>.
\<close>

theorem destination_overwritten_witness:
  "attempt_fails (flaky_source 0) \<and> attempt_fails (flaky_source 1)
   \<and> body (flaky_source 1) = [104, 101]
   \<and> attempt_succeeds (flaky_source 2) \<and> body (flaky_source 2) = hello
   \<and> int 1 + 2 \<le> downloadRetry five_tries
   \<and> stale_files ''/tmp/data.bin'' = Some [9, 9, 9, 9, 9, 9, 9]
   \<and> fst (download five_tries ''http://host/data.bin'' ''/tmp/data.bin'' ''testdata'' flaky_source stale_files) = Returned
   \<and> disk (snd (download five_tries ''http://host/data.bin'' ''/tmp/data.bin'' ''testdata'' flaky_source stale_files))
        ''/tmp/data.bin'' = Some hello"
proof -
  have hyp: "(\<forall>i\<le>1. attempt_fails (flaky_source i)) \<and> body (flaky_source 1) = [104, 101]
        \<and> attempt_succeeds (flaky_source (Suc 1)) \<and> body (flaky_source (Suc 1)) = hello
        \<and> int 1 + 2 \<le> downloadRetry five_tries"
    by (simp add: five_tries_def)
  note imp = destination_overwritten [of five_tries "''http://host/data.bin''" "''/tmp/data.bin''"
        "''testdata''" flaky_source stale_files NoResponse "\<lparr>disk = stale_files, history = []\<rparr>"
        1 "[104, 101]" hello, THEN conjunct2, THEN conjunct2]
  have concl: "disk (replay five_tries ''http://host/data.bin'' ''/tmp/data.bin'' flaky_source (Suc 1)
          \<lparr>disk = stale_files, history = []\<rparr>) ''/tmp/data.bin'' = Some [104, 101]
        \<and> fst (download five_tries ''http://host/data.bin'' ''/tmp/data.bin'' ''testdata'' flaky_source stale_files) = Returned
        \<and> disk (snd (download five_tries ''http://host/data.bin'' ''/tmp/data.bin'' ''testdata'' flaky_source stale_files))
             ''/tmp/data.bin'' = Some hello"
    by (rule mp [OF imp hyp])
  have f: "attempt_fails (flaky_source 0) \<and> attempt_fails (flaky_source 1)" by simp
  have b: "body (flaky_source 1) = [104, 101] \<and> attempt_succeeds (flaky_source 2)
      \<and> body (flaky_source 2) = hello" by simp
  have n: "int 1 + 2 \<le> downloadRetry five_tries" by (simp add: five_tries_def)
  have s: "stale_files ''/tmp/data.bin'' = Some [9, 9, 9, 9, 9, 9, 9]" by (simp add: stale_files_def)
  show ?thesis
    using f b n s concl by (simp del: flaky_source.simps replay.simps)
qed

subsection \<open>Closing the write stream\<close>




subsection \<open>readFileLimited\<close>

text \<open>
  C9, as the code has it. \<open>readFileLimited\<close> rejects exactly when the file was opened and
  \<open>close\<close> rejects. When \<open>open\<close> fails, for \<open>ENOENT\<close> or any other error, it returns \<open>""\<close>
  and closes nothing. When \<open>open\<close> succeeds, \<open>close\<close> is called once; if it succeeds the
  result is \<open>""\<close> after an error of \<open>stat\<close>, of the buffer allocation, of \<open>read\<close> or of
  the decoding, and otherwise the decoding of the bytes read from position 0, at most
  \<open>min(size, lengthLimit)\<close> of them.
\<close>

theorem readFileLimited_spec:
  "((\<exists>e. fst (readFileLimited utf8 fs p lengthLimit) = Rejected e)
       \<longleftrightarrow> open_error (fs p) = None \<and> close_error (fs p) \<noteq> None)
   \<and> (open_error (fs p) \<noteq> None \<longrightarrow> readFileLimited utf8 fs p lengthLimit = (Fulfilled [], 0))
   \<and> (open_error (fs p) = None \<longrightarrow> snd (readFileLimited utf8 fs p lengthLimit) = 1)
   \<and> (open_error (fs p) = None \<and> close_error (fs p) = None \<longrightarrow>
        fst (readFileLimited utf8 fs p lengthLimit) =
          Fulfilled
            (case stat_result (fs p) of
               Inl e \<Rightarrow> []
             | Inr actualSize \<Rightarrow>
                 if min actualSize lengthLimit < 0 \<or> max_length (fs p) < min actualSize lengthLimit then []
                 else (case read_result (fs p) of
                         Inl e \<Rightarrow> []
                       | Inr delivered \<Rightarrow>
                           (case utf8 (take (min (nat (min actualSize lengthLimit)) delivered)
                                         (content (fs p))) of
                              Inl e \<Rightarrow> []
                            | Inr ret \<Rightarrow> ret))))"
  by (auto simp: readFileLimited_def readFileLimited_try_def allocUnsafe_def Let_def
      split: option.splits sum.splits prod.splits)

text \<open>A file of five bytes, a limit of four, and a read that delivers three.\<close>

theorem readFileLimited_spec_witness:
  "(open_error (readable_file ''/tmp/out.txt'') = None \<and> close_error (readable_file ''/tmp/out.txt'') = None)
   \<and> readFileLimited decode_bytes readable_file ''/tmp/out.txt'' 4 = (Fulfilled ''hel'', 1)"
proof -
  have h: "open_error (readable_file ''/tmp/out.txt'') = None \<and> close_error (readable_file ''/tmp/out.txt'') = None"
    by (simp add: readable_file_def)
  note inst = readFileLimited_spec [of decode_bytes readable_file "''/tmp/out.txt''" 4]
  note c1 = mp [OF inst [THEN conjunct2, THEN conjunct2, THEN conjunct1] h [THEN conjunct1]]
  note c2 = mp [OF inst [THEN conjunct2, THEN conjunct2, THEN conjunct2] h]
  have v: "(case stat_result (readable_file ''/tmp/out.txt'') of
               Inl e \<Rightarrow> []
             | Inr actualSize \<Rightarrow>
                 if min actualSize 4 < 0 \<or> max_length (readable_file ''/tmp/out.txt'') < min actualSize 4 then []
                 else (case read_result (readable_file ''/tmp/out.txt'') of
                         Inl e \<Rightarrow> []
                       | Inr delivered \<Rightarrow>
                           (case decode_bytes (take (min (nat (min actualSize 4)) delivered)
                                         (content (readable_file ''/tmp/out.txt''))) of
                              Inl e \<Rightarrow> []
                            | Inr ret \<Rightarrow> ret)))
      = ''hel''"
    by code_simp
  have "readFileLimited decode_bytes readable_file ''/tmp/out.txt'' 4 = (Fulfilled ''hel'', 1)"
    using c1 c2 unfolding v by (simp add: prod_eq_iff)
  with h show ?thesis by blast
qed

text \<open>
  C9 as stated fails when \<open>close\<close> rejects: the rejection raised in \<open>finally\<close> replaces the
  string that was about to be returned.
\<close>

theorem close_rejection_counterexample:
  "fst (readFileLimited decode_bytes unclosable_file ''/tmp/out.txt'' 4) = Rejected ''EIO''"
  by code_simp

subsection \<open>safelyJoinPath\<close>

lemma doSafelyJoin_throws_iff:
  "(\<exists>e. doSafelyJoin pjoin pnormalize b paths = Inl e) \<longleftrightarrow> startsWith (pnormalize (pjoin paths)) ''..''"
  by (simp add: doSafelyJoin_def Let_def)

lemma doSafelyJoin_returns:
  "\<not> startsWith (pnormalize (pjoin paths)) ''..'' \<Longrightarrow>
   doSafelyJoin pjoin pnormalize b paths = Inr (pjoin [b, pnormalize (pjoin paths)])"
  by (simp add: doSafelyJoin_def Let_def)

text \<open>
  C10. \<open>safelyJoinPath\<close> throws exactly when the normalization of the joined segments
  begins with \<open>..\<close>, whatever the base is. When it returns, a string base gives
  \<open>join(basePath, child)\<close> and a \<open>MappedPath\<close> base gives the record whose \<open>inside\<close> and
  \<open>outside\<close> are each joined with that same child path.
\<close>

theorem safelyJoinPath_spec:
  "((\<exists>e. safelyJoinPath pjoin pnormalize base paths = Inl e)
      \<longleftrightarrow> startsWith (pnormalize (pjoin paths)) ''..'')
   \<and> (\<not> startsWith (pnormalize (pjoin paths)) ''..'' \<longrightarrow>
        safelyJoinPath pjoin pnormalize (PlainPath b) paths
          = Inr (PlainPath (pjoin [b, pnormalize (pjoin paths)]))
      \<and> safelyJoinPath pjoin pnormalize (Mapped m) paths
          = Inr (Mapped \<lparr>outside = pjoin [outside m, pnormalize (pjoin paths)],
                         inside = pjoin [inside m, pnormalize (pjoin paths)]\<rparr>))"
proof (cases "startsWith (pnormalize (pjoin paths)) ''..''")
  case True
  then have "\<And>x. doSafelyJoin pjoin pnormalize x paths = Inl (InvalidPathJoin x paths)"
    by (simp add: doSafelyJoin_def Let_def)
  then show ?thesis using True
    by (cases base) (simp_all add: safelyJoinPath_def)
next
  case False
  then have "\<And>x. doSafelyJoin pjoin pnormalize x paths = Inr (pjoin [x, pnormalize (pjoin paths)])"
    by (rule doSafelyJoin_returns)
  then show ?thesis using False
    by (cases base) (simp_all add: safelyJoinPath_def)
qed

text \<open>A child that stays inside the base, joined to a string base and to a mapped base.\<close>

theorem safelyJoinPath_spec_witness:
  "\<not> startsWith (posix_normalize (posix_join [''a'', ''../b''])) ''..''
   \<and> safelyJoinPath posix_join posix_normalize (PlainPath ''/base'') [''a'', ''../b'']
       = Inr (PlainPath ''/base/b'')
   \<and> safelyJoinPath posix_join posix_normalize
       (Mapped \<lparr>outside = ''/host/x'', inside = ''/sandbox''\<rparr>) [''a'', ''../b'']
       = Inr (Mapped \<lparr>outside = ''/host/x/b'', inside = ''/sandbox/b''\<rparr>)"
proof -
  have c: "posix_normalize (posix_join [''a'', ''../b'']) = ''b''"
    by code_simp
  have n: "\<not> startsWith (posix_normalize (posix_join [''a'', ''../b''])) ''..''"
    unfolding c by (simp add: startsWith_def)
  have j1: "posix_join [''/base'', ''b''] = ''/base/b''" by code_simp
  have j2: "posix_join [''/host/x'', ''b''] = ''/host/x/b''" by code_simp
  have j3: "posix_join [''/sandbox'', ''b''] = ''/sandbox/b''" by code_simp
  show ?thesis
    using n safelyJoinPath_spec [of posix_join posix_normalize "PlainPath ''/base''"
        "[''a'', ''../b'']" "''/base''" "\<lparr>outside = ''/host/x'', inside = ''/sandbox''\<rparr>"]
    by (simp add: c j1 j2 j3)
qed

end
